theory Spec2Isabelle
  imports Main "HOL-Library.Word"
begin

section \<open>JavaScript values\<close>

text \<open>
  The login handler receives whatever \<^verbatim>\<open>request.json()\<close> yields and passes it, typed
  \<^verbatim>\<open>any\<close>, to the validator. A plain value is a primitive or an array of plain values;
  a request body is a plain value or an object whose own properties hold plain values.
  \<open>undefined\<close> is a value of its own (an absent property reads as it).

  Numbers are modelled by the integers from \<open>-2\<^sup>5\<^sup>3\<close> up to \<open>2\<^sup>5\<^sup>3\<close>, which a
  JavaScript number holds exactly and prints in plain decimal digits. A string is a
  sequence of UTF-16 code units; the model takes the code units below 256, which is what
  \<^typ>\<open>char\<close> holds, and \<open>length\<close> counts them.

  Property values and array elements that are themselves objects are outside the model:
  the length check would compare a property of theirs with 6 through the conversion of
  strings to floating-point numbers.
\<close>

type_synonym safe_int = "54 word"

datatype jsplain =
  JUndefined | JNull | JBool bool | JNum safe_int | JStr string | JArray "jsplain list"

datatype jsval = Plain jsplain | JObject "string \<Rightarrow> jsplain option"

datatype js_error = SyntaxError | TypeError | RangeError

text \<open>\<^verbatim>\<open>!x\<close> is the negation of truthiness: \<open>undefined\<close>, \<open>null\<close>, \<open>false\<close>, \<open>0\<close> and
  the empty string are falsy, every array (the empty one too) and every object is
  truthy.\<close>

fun truthy_plain :: "jsplain \<Rightarrow> bool" where
  "truthy_plain JUndefined = False"
| "truthy_plain JNull = False"
| "truthy_plain (JBool b) = b"
| "truthy_plain (JNum n) = (n \<noteq> 0)"
| "truthy_plain (JStr s) = (s \<noteq> [])"
| "truthy_plain (JArray xs) = True"

fun truthy :: "jsval \<Rightarrow> bool" where
  "truthy (Plain p) = truthy_plain p"
| "truthy (JObject m) = True"

text \<open>\<^verbatim>\<open>typeof\<close>; note that \<^verbatim>\<open>typeof null\<close> is \<^verbatim>\<open>'object'\<close>, as is that of an
  array.\<close>

fun typeof :: "jsval \<Rightarrow> string" where
  "typeof (Plain JUndefined) = ''undefined''"
| "typeof (Plain JNull) = ''object''"
| "typeof (Plain (JBool b)) = ''boolean''"
| "typeof (Plain (JNum n)) = ''number''"
| "typeof (Plain (JStr s)) = ''string''"
| "typeof (Plain (JArray xs)) = ''object''"
| "typeof (JObject m) = ''object''"

text \<open>Reading a property of a value that is neither \<open>null\<close> nor \<open>undefined\<close>, for a
  name that is not an index, \<^verbatim>\<open>length\<close> or a member of a prototype (the code reads
  \<^verbatim>\<open>email\<close> and \<^verbatim>\<open>password\<close>): an object yields its own property, anything else
  \<open>undefined\<close>.\<close>

fun get_prop :: "jsval \<Rightarrow> string \<Rightarrow> jsplain" where
  "get_prop (JObject m) k = (case m k of None \<Rightarrow> JUndefined | Some v \<Rightarrow> v)"
| "get_prop (Plain p) k = JUndefined"

text \<open>\<^verbatim>\<open>x.length\<close> for a truthy plain value: a string has its number of code units and
  an array its number of elements; a number or a boolean has no such property (\<open>None\<close>
  stands for \<open>undefined\<close>).\<close>

fun length_prop :: "jsplain \<Rightarrow> nat option" where
  "length_prop (JStr s) = Some (length s)"
| "length_prop (JArray xs) = Some (length xs)"
| "length_prop p = None"

text \<open>Decimal text of a natural number, and \<^verbatim>\<open>String(x)\<close> for a plain value. An
  array prints its elements separated by commas, \<open>null\<close> and \<open>undefined\<close> among them as
  the empty string.\<close>

definition digit_char :: "nat \<Rightarrow> char" where
  "digit_char d = char_of (48 + d)"

fun decimal :: "nat \<Rightarrow> string" where
  "decimal n = (if n < 10 then [digit_char n] else decimal (n div 10) @ [digit_char (n mod 10)])"

declare decimal.simps [simp del]

fun join :: "string list \<Rightarrow> string" where
  "join [] = []"
| "join [s] = s"
| "join (s # t # r) = s @ '','' @ join (t # r)"

fun ToString :: "jsplain \<Rightarrow> string" where
  "ToString JUndefined = ''undefined''"
| "ToString JNull = ''null''"
| "ToString (JBool b) = (if b then ''true'' else ''false'')"
| "ToString (JNum n) =
     (if sint n < 0 then CHR ''-'' # decimal (nat (- sint n)) else decimal (nat (sint n)))"
| "ToString (JStr s) = s"
| "ToString (JArray xs) =
     join (map (\<lambda>x. if x = JUndefined \<or> x = JNull then [] else ToString x) xs)"

subsection \<open>String operations\<close>

text \<open>White space as \<^verbatim>\<open>\s\<close> and \<^verbatim>\<open>trim\<close> know it, among the code units below 256:
  tab, line feed, vertical tab, form feed, carriage return, space, no-break space.\<close>

definition is_space :: "char \<Rightarrow> bool" where
  "is_space c = (of_char c \<in> {9, 10, 11, 12, 13, 32, 160 :: nat})"

definition trim :: "string \<Rightarrow> string" where
  "trim s = rev (dropWhile is_space (rev (dropWhile is_space s)))"

text \<open>\<^verbatim>\<open>toLowerCase\<close> on the code units below 256: \<open>A\<close> to \<open>Z\<close> and the accented
  capitals U+00C0 to U+00DE (but the multiplication sign U+00D7) move up by 32.\<close>

definition lower_char :: "char \<Rightarrow> char" where
  "lower_char c =
     (let n = of_char c :: nat
      in if (65 \<le> n \<and> n \<le> 90) \<or> (192 \<le> n \<and> n \<le> 222 \<and> n \<noteq> 215) then char_of (n + 32) else c)"

definition toLowerCase :: "string \<Rightarrow> string" where
  "toLowerCase s = map lower_char s"

subsection \<open>The email pattern\<close>

text \<open>The pattern \<^verbatim>\<open>/^[^\s@]+@[^\s@]+\.[^\s@]+$/\<close> is a sequence of literal characters
  and of repeated (one or more) character classes, anchored at both ends. The matcher
  tries every length a repetition can take.\<close>

datatype regex_item = Literal char | ClassPlus "char \<Rightarrow> bool"

fun regex_match :: "regex_item list \<Rightarrow> string \<Rightarrow> bool" where
  "regex_match [] s = (s = [])"
| "regex_match (Literal c # r) [] = False"
| "regex_match (Literal c # r) (x # xs) = (x = c \<and> regex_match r xs)"
| "regex_match (ClassPlus p # r) [] = False"
| "regex_match (ClassPlus p # r) (x # xs) =
     (p x \<and> (regex_match (ClassPlus p # r) xs \<or> regex_match r xs))"

definition not_space_at :: "char \<Rightarrow> bool" where
  "not_space_at c = (\<not> is_space c \<and> c \<noteq> CHR ''@'')"

definition EMAIL_REGEX :: "regex_item list" where
  "EMAIL_REGEX =
     [ClassPlus not_space_at, Literal (CHR ''@''), ClassPlus not_space_at,
      Literal (CHR ''.''), ClassPlus not_space_at]"

text \<open>\<^verbatim>\<open>EMAIL_REGEX.test(x)\<close> converts its argument to a string first.\<close>

definition EMAIL_REGEX_test :: "jsplain \<Rightarrow> bool" where
  "EMAIL_REGEX_test x = regex_match EMAIL_REGEX (ToString x)"

section \<open>Validation\<close>

record ValidationError =
  field :: string
  message :: string

definition MIN_PASSWORD_LENGTH :: nat where
  "MIN_PASSWORD_LENGTH = 6"

text \<open>\<^verbatim>\<open>validateLoginCredentials\<close>. The array \<^verbatim>\<open>errors\<close> starts empty and each
  \<^verbatim>\<open>push\<close> appends to it. In the length check
  \<^verbatim>\<open>password.length < MIN_PASSWORD_LENGTH\<close> an \<open>undefined\<close> length compares false.\<close>

definition validateLoginCredentials :: "jsval \<Rightarrow> ValidationError list" where
  "validateLoginCredentials credentials =
     (let errors = []
      in if \<not> truthy credentials \<or> typeof credentials \<noteq> ''object'' then
           [\<lparr>field = ''general'', message = ''Invalid request body.''\<rparr>]
         else
           let email = get_prop credentials ''email'';
               password = get_prop credentials ''password'';
               errors =
                 (if \<not> truthy_plain email then
                    errors @ [\<lparr>field = ''email'', message = ''Email is required.''\<rparr>]
                  else if \<not> EMAIL_REGEX_test email then
                    errors @ [\<lparr>field = ''email'', message = ''Invalid email format.''\<rparr>]
                  else errors);
               errors =
                 (if \<not> truthy_plain password then
                    errors @ [\<lparr>field = ''password'', message = ''Password is required.''\<rparr>]
                  else if (case length_prop password of
                             None \<Rightarrow> False
                           | Some n \<Rightarrow> n < MIN_PASSWORD_LENGTH) then
                    errors @
                      [\<lparr>field = ''password'',
                        message = ''Password must be at least '' @ decimal MIN_PASSWORD_LENGTH @
                                  '' characters.''\<rparr>]
                  else errors)
           in errors)"

text \<open>What each of the two checks pushes, for the proofs: the result on a structure is
  the one followed by the other (\<open>validate_object\<close> below).\<close>

definition email_errors :: "jsplain \<Rightarrow> ValidationError list" where
  "email_errors x =
     (if \<not> truthy_plain x then
        [\<lparr>field = ''email'', message = ''Email is required.''\<rparr>]
      else if \<not> EMAIL_REGEX_test x then
        [\<lparr>field = ''email'', message = ''Invalid email format.''\<rparr>]
      else [])"

definition password_errors :: "jsplain \<Rightarrow> ValidationError list" where
  "password_errors x =
     (if \<not> truthy_plain x then
        [\<lparr>field = ''password'', message = ''Password is required.''\<rparr>]
      else if (case length_prop x of None \<Rightarrow> False | Some n \<Rightarrow> n < MIN_PASSWORD_LENGTH) then
        [\<lparr>field = ''password'',
          message = ''Password must be at least '' @ decimal MIN_PASSWORD_LENGTH @
                    '' characters.''\<rparr>]
      else [])"

subsection \<open>Sanitization\<close>

record LoginCredentials =
  email :: jsplain
  password :: jsplain

text \<open>\<^verbatim>\<open>credentials.email?.trim().toLowerCase()\<close>: \<open>undefined\<close> and \<open>null\<close> stop the
  chain with \<open>undefined\<close>; a string is trimmed and lowercased; a number, a boolean or
  an array has no \<^verbatim>\<open>trim\<close> method, and calling it throws a TypeError.\<close>

fun trim_lower_opt :: "jsplain \<Rightarrow> js_error + jsplain" where
  "trim_lower_opt JUndefined = Inr JUndefined"
| "trim_lower_opt JNull = Inr JUndefined"
| "trim_lower_opt (JStr s) = Inr (JStr (toLowerCase (trim s)))"
| "trim_lower_opt (JBool b) = Inl TypeError"
| "trim_lower_opt (JNum n) = Inl TypeError"
| "trim_lower_opt (JArray xs) = Inl TypeError"

text \<open>\<^verbatim>\<open>x || ''\<close>\<close>

definition or_empty :: "jsplain \<Rightarrow> jsplain" where
  "or_empty x = (if truthy_plain x then x else JStr [])"

text \<open>Reading a property of \<open>null\<close> or \<open>undefined\<close> throws a TypeError.\<close>

fun nullish :: "jsval \<Rightarrow> bool" where
  "nullish (Plain JNull) = True"
| "nullish (Plain JUndefined) = True"
| "nullish v = False"

definition sanitizeCredentials :: "jsval \<Rightarrow> js_error + LoginCredentials" where
  "sanitizeCredentials credentials =
     (if nullish credentials then Inl TypeError
      else case trim_lower_opt (get_prop credentials ''email'') of
        Inl e \<Rightarrow> Inl e
      | Inr e \<Rightarrow>
          Inr \<lparr>email = or_empty e, password = or_empty (get_prop credentials ''password'')\<rparr>)"

text \<open>A credentials record as the object it is, to pass it on as \<^verbatim>\<open>any\<close>.\<close>

definition credentials_object :: "LoginCredentials \<Rightarrow> jsval" where
  "credentials_object c = JObject [''email'' \<mapsto> email c, ''password'' \<mapsto> password c]"

section \<open>Authentication\<close>

text \<open>The user record of a successful result; its keys \<^verbatim>\<open>email\<close> and \<^verbatim>\<open>id\<close> are
  the fields \<open>user_email\<close> and \<open>user_id\<close>.\<close>

record User =
  user_email :: jsplain
  user_id :: string
  role :: string

record AuthData =
  user :: User

record AuthResult =
  success :: bool
  message :: string
  statusCode :: nat
  data :: "AuthData option"

definition VALID_CREDENTIALS :: LoginCredentials where
  "VALID_CREDENTIALS = \<lparr>email = JStr ''test@example.com'', password = JStr ''password123''\<rparr>"

text \<open>\<open>VALID_CREDENTIALS\<close> is the pair the class definition gives the static property
  of that name. The simulated lookup waits on a timer of 10 milliseconds: a clock in
  milliseconds is passed in and returned. (The property as a part of the state of the
  running process, and a timer that fires late, are the subject of the section on the
  service at run time.)\<close>

type_synonym clock = nat

definition simulateDatabaseDelay :: "clock \<Rightarrow> clock" where
  "simulateDatabaseDelay t = t + 10"

text \<open>\<^verbatim>\<open>===\<close> against a string is equality of type and value: only that string
  equals it.\<close>

definition authenticateUser :: "clock \<Rightarrow> LoginCredentials \<Rightarrow> AuthResult \<times> clock" where
  "authenticateUser t credentials =
     (let t' = simulateDatabaseDelay t
      in if email credentials = email VALID_CREDENTIALS
            \<and> password credentials = password VALID_CREDENTIALS
         then (\<lparr>success = True, message = ''Login successful!'', statusCode = 200,
                 data = Some \<lparr>user = \<lparr>user_email = email credentials, user_id = ''user-123'',
                                       role = ''user''\<rparr>\<rparr>\<rparr>, t')
         else (\<lparr>success = False, message = ''Invalid credentials.'', statusCode = 401,
                 data = None\<rparr>, t'))"

section \<open>Responses\<close>

text \<open>The JSON envelope; an absent key is \<open>None\<close>.\<close>

record ResponseBody =
  success :: bool
  message :: string
  errors :: "ValidationError list option"
  data :: "AuthData option"

record Response =
  body :: ResponseBody
  status :: nat

text \<open>\<^verbatim>\<open>NextResponse.json(body, {status})\<close> builds a response that has a body. It
  throws a RangeError for a status outside 200 to 599, and a TypeError for a status that
  allows no body (204, 205, 304).\<close>

definition NextResponse_json :: "ResponseBody \<Rightarrow> nat \<Rightarrow> js_error + Response" where
  "NextResponse_json b st =
     (if st < 200 \<or> 599 < st then Inl RangeError
      else if st \<in> {204, 205, 304} then Inl TypeError
      else Inr \<lparr>body = b, status = st\<rparr>)"

text \<open>The validation response and the server-error response carry the fixed statuses
  400 and 500, with which \<^verbatim>\<open>NextResponse.json\<close> returns
  (\<open>NextResponse_json_fixed\<close> below).\<close>

definition createValidationErrorResponse :: "ValidationError list \<Rightarrow> Response" where
  "createValidationErrorResponse errs =
     \<lparr>body = \<lparr>success = False, message = ''Validation failed'', errors = Some errs, data = None\<rparr>,
      status = 400\<rparr>"

text \<open>The \<^verbatim>\<open>data\<close> key is spread into the envelope only when the result has data.
  The status is the result's own, so this call of \<^verbatim>\<open>NextResponse.json\<close> can throw.\<close>

definition createAuthResponse :: "AuthResult \<Rightarrow> js_error + Response" where
  "createAuthResponse authResult =
     NextResponse_json
       \<lparr>success = AuthResult.success authResult, message = AuthResult.message authResult,
        errors = None, data = AuthResult.data authResult\<rparr>
       (statusCode authResult)"

definition createServerErrorResponse :: Response where
  "createServerErrorResponse =
     \<lparr>body = \<lparr>success = False, message = ''Internal server error'', errors = None, data = None\<rparr>,
      status = 500\<rparr>"

section \<open>The POST handler\<close>

text \<open>A request is modelled by what \<^verbatim>\<open>await request.json()\<close> does: it yields the
  parsed body or throws. \<open>try_block\<close> is the body of the handler's \<^verbatim>\<open>try\<close>, an
  exception being \<open>Inl\<close>; \<open>POST\<close> adds the \<^verbatim>\<open>catch\<close>. Console output is not
  modelled.\<close>

type_synonym Request = "js_error + jsval"

definition try_block :: "clock \<Rightarrow> Request \<Rightarrow> js_error + Response" where
  "try_block t request =
     (case request of
        Inl e \<Rightarrow> Inl e
      | Inr b \<Rightarrow>
          let validationErrors = validateLoginCredentials b
          in if length validationErrors > 0 then
               Inr (createValidationErrorResponse validationErrors)
             else (case sanitizeCredentials b of
               Inl e \<Rightarrow> Inl e
             | Inr sanitizedCredentials \<Rightarrow>
                 let authResult = fst (authenticateUser t sanitizedCredentials)
                 in createAuthResponse authResult))"

definition POST :: "clock \<Rightarrow> Request \<Rightarrow> Response" where
  "POST t request =
     (case try_block t request of
        Inr response \<Rightarrow> response
      | Inl e \<Rightarrow> createServerErrorResponse)"

section \<open>The service at run time\<close>

text \<open>In the running program the reference pair is a property of the class object
  \<^verbatim>\<open>AuthService\<close>, which \<^verbatim>\<open>authenticateUser\<close> reads through
  \<^verbatim>\<open>this.VALID_CREDENTIALS\<close> after the timer has fired; \<^verbatim>\<open>readonly\<close> binds the
  compiler only. The timer fires 10 milliseconds after it was set or later, as the
  runtime decides. A run-time state holds the clock and the current value of the
  property; \<open>class_loaded\<close> is the state once the class definition has been evaluated,
  which stores the initial value.\<close>

record Runtime =
  now :: clock
  reference :: LoginCredentials

definition class_loaded :: "clock \<Rightarrow> Runtime" where
  "class_loaded t = \<lparr>now = t, reference = VALID_CREDENTIALS\<rparr>"

text \<open>\<^verbatim>\<open>authenticateUser\<close> on a run-time state: \<open>late\<close> is how long after its 10
  milliseconds the timer fires.\<close>

definition authenticateUser_at ::
    "Runtime \<Rightarrow> nat \<Rightarrow> LoginCredentials \<Rightarrow> AuthResult \<times> Runtime" where
  "authenticateUser_at r late credentials =
     (let r' = r\<lparr>now := simulateDatabaseDelay (now r) + late\<rparr>
      in if email credentials = email (reference r')
            \<and> password credentials = password (reference r')
         then (\<lparr>AuthResult.success = True, AuthResult.message = ''Login successful!'',
                 statusCode = 200,
                 AuthResult.data =
                   Some \<lparr>user = \<lparr>user_email = email credentials, user_id = ''user-123'',
                                  role = ''user''\<rparr>\<rparr>\<rparr>, r')
         else (\<lparr>AuthResult.success = False, AuthResult.message = ''Invalid credentials.'',
                 statusCode = 401, AuthResult.data = None\<rparr>, r'))"

text \<open>The state after the handler has served a request whose timer fires \<open>late\<close>: the
  handler reaches the run-time state through \<^verbatim>\<open>authenticateUser\<close> only, which it calls
  when the body has passed validation and sanitization.\<close>

definition POST_at :: "Runtime \<Rightarrow> nat \<Rightarrow> Request \<Rightarrow> Runtime" where
  "POST_at r late request =
     (case request of
        Inl e \<Rightarrow> r
      | Inr b \<Rightarrow>
          if length (validateLoginCredentials b) > 0 then r
          else (case sanitizeCredentials b of
            Inl e \<Rightarrow> r
          | Inr sanitizedCredentials \<Rightarrow> snd (authenticateUser_at r late sanitizedCredentials)))"

text \<open>The states a process can be in: the class has been loaded, time has passed, a
  request has been served, or \<^verbatim>\<open>authenticateUser\<close> has been called directly.
  (\<^verbatim>\<open>validateSession\<close> compares its argument with a constant and reads no state;
  the validator and the responder are functions of their arguments.)\<close>

inductive reachable :: "Runtime \<Rightarrow> bool" where
  loaded: "reachable (class_loaded t)"
| waited: "reachable r \<Longrightarrow> reachable (r\<lparr>now := now r + d\<rparr>)"
| served: "reachable r \<Longrightarrow> reachable (POST_at r late request)"
| called: "reachable r \<Longrightarrow> reachable (snd (authenticateUser_at r late credentials))"

section \<open>Auxiliary facts\<close>

subsection \<open>Strings\<close>

lemma lower_char_idem: "lower_char (lower_char c) = lower_char c"
  by (auto simp: lower_char_def Let_def)

lemma is_space_lower_char: "is_space (lower_char c) = is_space c"
  by (auto simp: lower_char_def is_space_def Let_def)

lemma toLowerCase_idem: "toLowerCase (toLowerCase s) = toLowerCase s"
  by (simp add: toLowerCase_def lower_char_idem)

lemma dropWhile_space_lower:
  "dropWhile is_space (toLowerCase s) = toLowerCase (dropWhile is_space s)"
  by (simp add: toLowerCase_def dropWhile_map comp_def is_space_lower_char)

lemma rev_toLowerCase: "rev (toLowerCase s) = toLowerCase (rev s)"
  by (simp add: toLowerCase_def rev_map)

lemma trim_toLowerCase: "trim (toLowerCase s) = toLowerCase (trim s)"
  by (simp add: trim_def dropWhile_space_lower rev_toLowerCase)

text \<open>Once the front of a list is clean, cleaning its back leaves the front clean.\<close>

lemma dropWhile_rev_stable:
  assumes "xs = [] \<or> \<not> P (hd xs)"
  shows "dropWhile P (rev (dropWhile P (rev xs))) = rev (dropWhile P (rev xs))"
proof (cases "dropWhile P (rev xs) = []")
  case True
  then have "rev (dropWhile P (rev xs)) = []" by (simp only: rev.simps)
  then show ?thesis by (simp only: dropWhile.simps)
next
  case False
  then obtain x where x: "x \<in> set (rev xs)" "\<not> P x" by auto
  then have "last (dropWhile P (rev xs)) = last (rev xs)"
    by (rule dropWhile_last)
  moreover from x assms have "xs \<noteq> []" "\<not> P (hd xs)" by auto
  ultimately have "\<not> P (hd (rev (dropWhile P (rev xs))))"
    using False by (simp add: hd_rev last_rev)
  then show ?thesis by (simp add: dropWhile_eq_self_iff)
qed

lemma trim_idem: "trim (trim s) = trim s"
proof -
  have "dropWhile is_space s = [] \<or> \<not> is_space (hd (dropWhile is_space s))"
    by (cases "dropWhile is_space s = []") (simp_all only: hd_dropWhile simp_thms)
  then show ?thesis
    by (simp add: trim_def dropWhile_rev_stable)
qed

lemma trim_lower_twice:
  "toLowerCase (trim (toLowerCase (trim s))) = toLowerCase (trim s)"
  by (simp add: trim_toLowerCase toLowerCase_idem trim_idem)


lemma test_email_matches: "EMAIL_REGEX_test (JStr ''test@example.com'')"
  by (simp add: EMAIL_REGEX_test_def EMAIL_REGEX_def not_space_at_def is_space_def)

subsection \<open>The validator by the shape of its input\<close>

lemma email_errors_fields: "e \<in> set (email_errors x) \<Longrightarrow> field e = ''email''"
  by (auto simp: email_errors_def split: if_splits)

lemma password_errors_fields: "e \<in> set (password_errors x) \<Longrightarrow> field e = ''password''"
  by (auto simp: password_errors_def split: if_splits)

lemma validate_object:
  "validateLoginCredentials (JObject m) =
     email_errors (get_prop (JObject m) ''email'') @
     password_errors (get_prop (JObject m) ''password'')"
  by (simp add: validateLoginCredentials_def email_errors_def password_errors_def Let_def)


lemma validate_primitive:
  "p \<noteq> JArray xs \<Longrightarrow> p = JNull \<or> typeof (Plain p) \<noteq> ''object'' \<Longrightarrow>
     validateLoginCredentials (Plain p) =
       [\<lparr>field = ''general'', ValidationError.message = ''Invalid request body.''\<rparr>]"
  by (cases p) (simp_all add: validateLoginCredentials_def)

subsection \<open>The sanitizer\<close>

lemma sanitize_object:
  "sanitizeCredentials (JObject m) =
     (case trim_lower_opt (get_prop (JObject m) ''email'') of
        Inl e \<Rightarrow> Inl e
      | Inr e \<Rightarrow>
          Inr \<lparr>email = or_empty e, password = or_empty (get_prop (JObject m) ''password'')\<rparr>)"
  by (simp add: sanitizeCredentials_def)

lemma or_empty_idem: "or_empty (or_empty x) = or_empty x"
  by (simp add: or_empty_def)

lemma trim_lower_opt_again:
  assumes "trim_lower_opt x = Inr e"
  shows "trim_lower_opt (or_empty e) = Inr (or_empty e)"
proof (cases x)
  case (JStr s)
  with assms have e: "e = JStr (toLowerCase (trim s))" by simp
  show ?thesis
  proof (cases "toLowerCase (trim s) = []")
    case True
    then show ?thesis by (simp add: e or_empty_def toLowerCase_def trim_def)
  next
    case False
    then show ?thesis by (simp add: e or_empty_def trim_lower_twice)
  qed
qed (use assms in \<open>simp_all add: or_empty_def toLowerCase_def trim_def\<close>)

subsection \<open>Responses\<close>

lemma NextResponse_json_fixed:
  "NextResponse_json b 400 = Inr \<lparr>body = b, status = 400\<rparr>"
  "NextResponse_json b 500 = Inr \<lparr>body = b, status = 500\<rparr>"
  by (simp_all add: NextResponse_json_def)



subsection \<open>Run-time states\<close>

lemma authenticateUser_at_reference:
  "reference (snd (authenticateUser_at r late c)) = reference r"
  by (simp add: authenticateUser_at_def Let_def)

lemma POST_at_reference: "reference (POST_at r late request) = reference r"
  by (simp add: POST_at_def authenticateUser_at_reference split: sum.splits)

text \<open>No step assigns to the property: it holds its initial value in every reachable
  state.\<close>

lemma reachable_reference: "reachable r \<Longrightarrow> reference r = VALID_CREDENTIALS"
proof (induction rule: reachable.induct)
  case (loaded t)
  show ?case by (simp add: class_loaded_def)
next
  case (waited r d)
  then show ?case by simp
next
  case (served r late request)
  then show ?case by (simp add: POST_at_reference)
next
  case (called r late credentials)
  then show ?case by (simp add: authenticateUser_at_reference)
qed

lemma authenticateUser_at_result:
  "reference r = VALID_CREDENTIALS \<Longrightarrow>
     fst (authenticateUser_at r late c) = fst (authenticateUser t c)"
  by (simp add: authenticateUser_at_def authenticateUser_def Let_def)

section \<open>Authentication outcomes\<close>

text \<open>C1. For every credentials record, \<open>authenticateUser\<close> returns the success
  result (status code 200, message "Login successful!", a user record in \<open>data\<close>)
  exactly when the email is the string \<open>test@example.com\<close> and the password is the
  string \<open>password123\<close>; for every other record it returns the failure result (status
  code 401, message "Invalid credentials.", no data).\<close>

theorem authenticateUser_exact_match:
  "fst (authenticateUser t c) =
     (if email c = JStr ''test@example.com'' \<and> password c = JStr ''password123''
      then \<lparr>AuthResult.success = True, AuthResult.message = ''Login successful!'',
             statusCode = 200,
             AuthResult.data =
               Some \<lparr>user = \<lparr>user_email = email c, user_id = ''user-123'', role = ''user''\<rparr>\<rparr>\<rparr>
      else \<lparr>AuthResult.success = False, AuthResult.message = ''Invalid credentials.'',
             statusCode = 401, AuthResult.data = None\<rparr>)"
  by (simp add: authenticateUser_def VALID_CREDENTIALS_def Let_def)

text \<open>The reference pair succeeds; the same pair with a capital letter in the email, or
  with a number for a password, fails.\<close>

theorem authenticateUser_exact_match_witness:
  "fst (authenticateUser 0 \<lparr>email = JStr ''test@example.com'', password = JStr ''password123''\<rparr>) =
     \<lparr>AuthResult.success = True, AuthResult.message = ''Login successful!'', statusCode = 200,
      AuthResult.data =
        Some \<lparr>user = \<lparr>user_email = JStr ''test@example.com'', user_id = ''user-123'',
                       role = ''user''\<rparr>\<rparr>\<rparr>
   \<and> fst (authenticateUser 0 \<lparr>email = JStr ''Test@example.com'', password = JStr ''password123''\<rparr>) =
     \<lparr>AuthResult.success = False, AuthResult.message = ''Invalid credentials.'',
      statusCode = 401, AuthResult.data = None\<rparr>
   \<and> fst (authenticateUser 0 \<lparr>email = JStr ''test@example.com'', password = JNum 123\<rparr>) =
     \<lparr>AuthResult.success = False, AuthResult.message = ''Invalid credentials.'',
      statusCode = 401, AuthResult.data = None\<rparr>"
  using
    authenticateUser_exact_match
      [of 0 "\<lparr>email = JStr ''test@example.com'', password = JStr ''password123''\<rparr>"]
    authenticateUser_exact_match
      [of 0 "\<lparr>email = JStr ''Test@example.com'', password = JStr ''password123''\<rparr>"]
    authenticateUser_exact_match
      [of 0 "\<lparr>email = JStr ''test@example.com'', password = JNum 123\<rparr>"]
  by simp

text \<open>C9. Two invocations of \<open>authenticateUser\<close> on the same credentials return
  the same result, and so the same success flag, message and status code, in whatever
  reachable states of the process they start and however late their timers fire: the
  result depends on the state through the reference pair only, which no step of the
  process changes. It is the result computed from the constant pair.\<close>

theorem authenticateUser_deterministic:
  assumes "reachable r1" and "reachable r2"
  shows "fst (authenticateUser_at r1 late1 c) = fst (authenticateUser_at r2 late2 c)
       \<and> AuthResult.success (fst (authenticateUser_at r1 late1 c)) =
           AuthResult.success (fst (authenticateUser_at r2 late2 c))
       \<and> AuthResult.message (fst (authenticateUser_at r1 late1 c)) =
           AuthResult.message (fst (authenticateUser_at r2 late2 c))
       \<and> statusCode (fst (authenticateUser_at r1 late1 c)) =
           statusCode (fst (authenticateUser_at r2 late2 c))
       \<and> fst (authenticateUser_at r1 late1 c) = fst (authenticateUser t c)"
proof -
  from assms have "reference r1 = VALID_CREDENTIALS" and "reference r2 = VALID_CREDENTIALS"
    by (simp_all add: reachable_reference)
  then have "fst (authenticateUser_at r1 late1 c) = fst (authenticateUser t c)"
    and "fst (authenticateUser_at r2 late2 c) = fst (authenticateUser t c)"
    by (simp_all add: authenticateUser_at_result)
  then show ?thesis by simp
qed

text \<open>A first call right after loading, and a second one after a request has been
  served and time has passed.\<close>

theorem authenticateUser_deterministic_witness:
  "reachable (class_loaded 0)
   \<and> reachable
       ((POST_at (class_loaded 0) 3
          (Inr (JObject [''email'' \<mapsto> JStr ''a@b.c'', ''password'' \<mapsto> JStr ''secret''])))
        \<lparr>now := 977\<rparr>)
   \<and> fst (authenticateUser_at (class_loaded 0) 0
            \<lparr>email = JStr ''a@b.c'', password = JStr ''secret''\<rparr>) =
     fst (authenticateUser_at
            ((POST_at (class_loaded 0) 3
               (Inr (JObject [''email'' \<mapsto> JStr ''a@b.c'', ''password'' \<mapsto> JStr ''secret''])))
             \<lparr>now := 977\<rparr>)
            25 \<lparr>email = JStr ''a@b.c'', password = JStr ''secret''\<rparr>)"
proof -
  let ?r = "POST_at (class_loaded 0) 3
      (Inr (JObject [''email'' \<mapsto> JStr ''a@b.c'', ''password'' \<mapsto> JStr ''secret'']))"
  have first: "reachable (class_loaded 0)" by (rule loaded)
  then have "reachable ?r" by (rule served)
  then have "reachable (?r\<lparr>now := now ?r + (977 - now ?r)\<rparr>)" by (rule waited)
  moreover have "now ?r \<le> 977"
    by (simp add: POST_at_def authenticateUser_at_def simulateDatabaseDelay_def class_loaded_def
        Let_def split: sum.splits)
  ultimately have second: "reachable (?r\<lparr>now := 977\<rparr>)" by simp
  from authenticateUser_deterministic [OF first second] first second
  show ?thesis by simp
qed

section \<open>Validation properties\<close>

text \<open>C4. For every input that is not a well-formed structure (\<open>null\<close>, \<open>undefined\<close>,
  or a value whose type is not \<open>object\<close>), \<open>validateLoginCredentials\<close> returns exactly
  one error, with field \<open>general\<close>: no field-level check is made, so no \<open>email\<close> or
  \<open>password\<close> error appears.\<close>

theorem validate_not_object:
  assumes "v = Plain JNull \<or> v = Plain JUndefined \<or> typeof v \<noteq> ''object''"
  shows "validateLoginCredentials v =
           [\<lparr>field = ''general'', ValidationError.message = ''Invalid request body.''\<rparr>]"
proof (cases v)
  case (Plain p)
  with assms have "p = JNull \<or> typeof (Plain p) \<noteq> ''object''" by auto
  moreover from this have "p \<noteq> JArray xs" for xs by auto
  ultimately show ?thesis unfolding Plain by (rule validate_primitive [rotated])
next
  case (JObject m)
  with assms show ?thesis by simp
qed

theorem validate_not_object_witness:
  "validateLoginCredentials (Plain JUndefined) =
     [\<lparr>field = ''general'', ValidationError.message = ''Invalid request body.''\<rparr>]
   \<and> validateLoginCredentials (Plain (JStr ''test@example.com'')) =
     [\<lparr>field = ''general'', ValidationError.message = ''Invalid request body.''\<rparr>]
   \<and> validateLoginCredentials (Plain (JNum 42)) =
     [\<lparr>field = ''general'', ValidationError.message = ''Invalid request body.''\<rparr>]"
  using validate_not_object [of "Plain JUndefined"]
    validate_not_object [of "Plain (JStr ''test@example.com'')"]
    validate_not_object [of "Plain (JNum 42)"]
  by simp






text \<open>C10. The length check reaches only values that have a length: for an object whose
  password is truthy and has no \<open>length\<close> property (a non-zero number, or \<open>true\<close>),
  validation reports no \<open>password\<close> error at all, and with an email that matches the
  pattern such a record passes validation.\<close>

theorem lengthless_password_passes:
  assumes "m ''password'' = Some p" and "truthy_plain p" and "length_prop p = None"
  shows "''password'' \<notin> set (map field (validateLoginCredentials (JObject m)))
       \<and> ((\<exists>e. m ''email'' = Some (JStr e) \<and> EMAIL_REGEX_test (JStr e) \<and> e \<noteq> []) \<longrightarrow>
            validateLoginCredentials (JObject m) = [])"
  using assms
  by (auto simp: validate_object password_errors_def email_errors_def dest: email_errors_fields)

text \<open>The number 123 prints in three characters and passes.\<close>

theorem lengthless_password_passes_witness:
  "validateLoginCredentials
     (JObject [''email'' \<mapsto> JStr ''test@example.com'', ''password'' \<mapsto> JNum 123]) = []
   \<and> length (ToString (JNum 123)) = 3"
proof -
  have "length (ToString (JNum 123)) = 3" by code_simp
  then show ?thesis
    using test_email_matches lengthless_password_passes
      [of "[''email'' \<mapsto> JStr ''test@example.com'', ''password'' \<mapsto> JNum 123]" "JNum 123"]
    by simp
qed

section \<open>Sanitization is idempotent\<close>

text \<open>C8. Whenever \<open>sanitizeCredentials\<close> returns a record, sanitizing that record
  again returns the same record; it does return on every object whose email is absent or
  a string. Trimming and lowercasing twice equals doing it once, and the password is
  unchanged by the second pass.\<close>

theorem sanitizeCredentials_idempotent:
  "(sanitizeCredentials v = Inr c \<longrightarrow> sanitizeCredentials (credentials_object c) = Inr c)
   \<and> ((m ''email'' = None \<or> (\<exists>s. m ''email'' = Some (JStr s))) \<longrightarrow>
        (\<exists>c'. sanitizeCredentials (JObject m) = Inr c'))
   \<and> toLowerCase (trim (toLowerCase (trim s))) = toLowerCase (trim s)"
proof (intro conjI impI)
  assume "sanitizeCredentials v = Inr c"
  then obtain e where e: "trim_lower_opt (get_prop v ''email'') = Inr e"
    and c: "c = \<lparr>email = or_empty e, password = or_empty (get_prop v ''password'')\<rparr>"
    by (auto simp: sanitizeCredentials_def split: if_splits sum.splits)
  from e have "trim_lower_opt (or_empty e) = Inr (or_empty e)"
    by (rule trim_lower_opt_again)
  then show "sanitizeCredentials (credentials_object c) = Inr c"
    by (simp add: credentials_object_def sanitize_object c or_empty_idem)
next
  assume "m ''email'' = None \<or> (\<exists>s. m ''email'' = Some (JStr s))"
  then show "\<exists>c'. sanitizeCredentials (JObject m) = Inr c'"
    by (auto simp: sanitize_object)
next
  show "toLowerCase (trim (toLowerCase (trim s))) = toLowerCase (trim s)"
    by (rule trim_lower_twice)
qed

theorem sanitizeCredentials_idempotent_witness:
  "sanitizeCredentials
     (JObject [''email'' \<mapsto> JStr ''  Test@Example.COM '', ''password'' \<mapsto> JStr '' Pass ''])
     = Inr \<lparr>email = JStr ''test@example.com'', password = JStr '' Pass ''\<rparr>
   \<and> sanitizeCredentials
       (credentials_object \<lparr>email = JStr ''test@example.com'', password = JStr '' Pass ''\<rparr>)
     = Inr \<lparr>email = JStr ''test@example.com'', password = JStr '' Pass ''\<rparr>"
proof -
  have lc: "toLowerCase (trim ''  Test@Example.COM '') = ''test@example.com''"
    by code_simp
  have "sanitizeCredentials
      (JObject [''email'' \<mapsto> JStr ''  Test@Example.COM '', ''password'' \<mapsto> JStr '' Pass ''])
     = Inr \<lparr>email = JStr ''test@example.com'', password = JStr '' Pass ''\<rparr>"
    by (simp add: sanitize_object or_empty_def lc)
  with sanitizeCredentials_idempotent
    [of "JObject [''email'' \<mapsto> JStr ''  Test@Example.COM '', ''password'' \<mapsto> JStr '' Pass '']"
        "\<lparr>email = JStr ''test@example.com'', password = JStr '' Pass ''\<rparr>"]
  show ?thesis by simp
qed

section \<open>The handler end to end\<close>

text \<open>C2. A request whose body is \<open>{email: "test@example.com", password:
  "password123"}\<close> is answered with status 200 and a body whose \<open>success\<close> is true.\<close>

theorem POST_valid_login:
  "POST t (Inr (JObject [''email'' \<mapsto> JStr ''test@example.com'',
                         ''password'' \<mapsto> JStr ''password123''])) =
     \<lparr>body = \<lparr>ResponseBody.success = True, ResponseBody.message = ''Login successful!'',
              errors = None,
              ResponseBody.data =
                Some \<lparr>user = \<lparr>user_email = JStr ''test@example.com'', user_id = ''user-123'',
                               role = ''user''\<rparr>\<rparr>\<rparr>,
      status = 200\<rparr>"
  by (simp add: POST_def try_block_def validate_object email_errors_def password_errors_def
      test_email_matches MIN_PASSWORD_LENGTH_def sanitize_object toLowerCase_def trim_def
      lower_char_def is_space_def or_empty_def authenticateUser_def VALID_CREDENTIALS_def
      createAuthResponse_def NextResponse_json_def)

theorem POST_valid_login_witness:
  "status (POST 0 (Inr (JObject [''email'' \<mapsto> JStr ''test@example.com'',
                                  ''password'' \<mapsto> JStr ''password123'']))) = 200
   \<and> ResponseBody.success
       (body (POST 0 (Inr (JObject [''email'' \<mapsto> JStr ''test@example.com'',
                                    ''password'' \<mapsto> JStr ''password123''])))) = True"
  using POST_valid_login [of 0] by simp

text \<open>C7. A request whose body is the empty object is answered with status 400 and
  exactly two errors: email required, then password required.\<close>

theorem POST_empty_object:
  "POST t (Inr (JObject Map.empty)) =
     \<lparr>body = \<lparr>ResponseBody.success = False, ResponseBody.message = ''Validation failed'',
              errors =
                Some [\<lparr>field = ''email'', ValidationError.message = ''Email is required.''\<rparr>,
                      \<lparr>field = ''password'',
                        ValidationError.message = ''Password is required.''\<rparr>],
              ResponseBody.data = None\<rparr>,
      status = 400\<rparr>"
  by (simp add: POST_def try_block_def validate_object email_errors_def password_errors_def
      createValidationErrorResponse_def)

theorem POST_empty_object_witness:
  "status (POST 0 (Inr (JObject Map.empty))) = 400
   \<and> map field (the (errors (body (POST 0 (Inr (JObject Map.empty)))))) = [''email'', ''password'']"
  using POST_empty_object [of 0] by simp



end
